theory Spec2Isabelle
  imports Complex_Main
begin

section \<open>The package index \<open>torchaudio/models/__init__.py\<close>\<close>

text \<open>
  The module consists of four import statements and the assignment of \<open>__all__\<close>.
  Every statement has the form \<^verbatim>\<open>from <module> import <name>\<close> and binds \<open>name\<close>
  in the namespace of the package; \<^verbatim>\<open>from . import wav2vec2\<close> binds the submodule.
\<close>

datatype import_stmt = FromImport (from_module: string) (imported_name: string)

definition models_imports :: "import_stmt list" where
  "models_imports =
    [FromImport ''.wav2letter'' ''Wav2Letter'',
     FromImport ''.wavernn'' ''WaveRNN'',
     FromImport ''.conv_tasnet'' ''ConvTasNet'',
     FromImport ''.'' ''wav2vec2'']"

definition models_all :: "string list" where
  "models_all = [''Wav2Letter'', ''WaveRNN'', ''ConvTasNet'']"

definition bound_names :: "import_stmt list \<Rightarrow> string list" where
  "bound_names stmts = map imported_name stmts"


section \<open>The build script \<open>build_pipeline.py\<close>\<close>

subsection \<open>The decoder configuration of \<open>_get_decoder\<close>\<close>

text \<open>
  The keyword arguments handed to \<open>simple_ctc.BeamSearchDecoder\<close>. The decoder class
  itself belongs to an external library; its constructor is a parameter of
  \<open>get_decoder\<close> below. The literal \<open>0.8\<close> is the decimal fraction of the source text.
\<close>

record beam_search_args =
  labels :: "string list"
  cutoff_top_n :: nat
  cutoff_prob :: real
  beam_size :: nat
  num_processes :: nat
  blank_id :: nat
  is_nll :: bool

definition decoder_labels :: "string list" where
  "decoder_labels =
    [''<s>'', ''<pad>'', ''</s>'', ''<unk>'', ''|'',
     ''E'', ''T'', ''A'', ''O'', ''N'', ''I'', ''H'', ''S'', ''R'', ''D'', ''L'', ''U'', ''M'',
     ''W'', ''C'', ''F'', ''G'', ''Y'', ''P'', ''B'', ''V'', ''K'', [CHR 0x27],
     ''X'', ''J'', ''Q'', ''Z'']"

definition decoder_args :: beam_search_args where
  "decoder_args =
    \<lparr>labels = decoder_labels, cutoff_top_n = 40, cutoff_prob = 0.8, beam_size = 100,
     num_processes = 1, blank_id = 0, is_nll = True\<rparr>"

subsection \<open>Errors\<close>

text \<open>
  Every way in which the script stops early is a value. \<open>parser.error\<close> prints a usage
  message and raises \<open>SystemExit(2)\<close>; the help action prints the help text and raises
  \<open>SystemExit(0)\<close>; any other exception that reaches the top level ends the process
  with status 1. \<open>ExternalError\<close> stands for an exception raised inside a call of an
  external library (checkpoint loading, audio decoding, scripting, saving).
\<close>

datatype action =
  Help | ModelFile | DictDir | OutputPath | TestFile | Debug | Quantize | OptimizeForMobile

datatype usage =
    AmbiguousOption string "string list"
  | ExpectedOneArgument action
  | IgnoredExplicitArgument action string
  | RequiredArguments "action list"
  | UnrecognizedArguments "string list"

datatype error =
    UsageError usage
  | HelpExit
  | TypeError
  | IndexError
  | ExternalError string

fun exit_status :: "error \<Rightarrow> nat" where
  "exit_status (UsageError u) = 2"
| "exit_status HelpExit = 0"
| "exit_status TypeError = 1"
| "exit_status IndexError = 1"
| "exit_status (ExternalError m) = 1"


subsection \<open>Command-line parsing: \<open>_parse_args\<close>\<close>

text \<open>
  \<open>_parse_args\<close> builds an \<open>argparse.ArgumentParser\<close> with seven options and calls
  \<open>parse_args()\<close> on the command line (\<open>sys.argv[1:]\<close>). The parser is the standard
  library's: prefix character \<open>-\<close>, abbreviations allowed, the help option \<open>-h\<close>,
  \<open>--help\<close> added by the constructor, no positional arguments, no groups. What follows
  is \<open>ArgumentParser.parse_args\<close> (CPython 3.11) specialised to that parser.
  The four valued options have action \<open>store\<close> (one argument, default \<open>None\<close>), the
  three flags have action \<open>store_true\<close> (no argument, default \<open>False\<close>).
  Strings are byte strings; all characters the parser inspects are ASCII.
\<close>

definition option_string_actions :: "(string \<times> action) list" where
  "option_string_actions =
    [(''-h'', Help), (''--help'', Help),
     (''--model-file'', ModelFile),
     (''--dict-dir'', DictDir),
     (''--output-path'', OutputPath),
     (''--test-file'', TestFile),
     (''--debug'', Debug),
     (''--quantize'', Quantize),
     (''--optimize-for-mobile'', OptimizeForMobile)]"

fun takes_argument :: "action \<Rightarrow> bool" where
  "takes_argument ModelFile = True"
| "takes_argument DictDir = True"
| "takes_argument OutputPath = True"
| "takes_argument TestFile = True"
| "takes_argument a = False"

fun required :: "action \<Rightarrow> bool" where
  "required ModelFile = True"
| "required a = False"

record namespace =
  model_file :: "string option"
  dict_dir :: "string option"
  output_path :: "string option"
  test_file :: "string option"
  debug :: bool
  quantize :: bool
  optimize_for_mobile :: bool

definition default_namespace :: namespace where
  "default_namespace =
    \<lparr>model_file = None, dict_dir = None, output_path = None, test_file = None,
     debug = False, quantize = False, optimize_for_mobile = False\<rparr>"

text \<open>Python's \<open>str.startswith\<close> and \<open>str.partition\<close> (for a one-character separator).\<close>

definition startswith :: "string \<Rightarrow> string \<Rightarrow> bool" where
  "startswith s p = (take (length p) s = p)"

definition partition_str :: "char \<Rightarrow> string \<Rightarrow> string \<times> bool \<times> string" where
  "partition_str c s = (takeWhile (\<lambda>x. x \<noteq> c) s, c \<in> set s, tl (dropWhile (\<lambda>x. x \<noteq> c) s))"

text \<open>
  The parser's \<open>_negative_number_matcher\<close>, the regular expression
  \<^verbatim>\<open>^-\d+$|^-\d*\.\d+$\<close>, over ASCII digits; \<^verbatim>\<open>$\<close> also matches before one final
  newline. Python's \<^verbatim>\<open>\d\<close> also matches the decimal digits of other
  scripts; an argument written with such digits is outside this model.
\<close>

definition is_digit :: "char \<Rightarrow> bool" where
  "is_digit c = (c \<in> set ''0123456789'')"

definition digits1 :: "string \<Rightarrow> bool" where
  "digits1 s = (s \<noteq> [] \<and> list_all is_digit s)"

definition negative_number_matcher :: "string \<Rightarrow> bool" where
  "negative_number_matcher s =
    (case (if s \<noteq> [] \<and> last s = CHR 0x0A then butlast s else s) of
       [] \<Rightarrow> False
     | c # r \<Rightarrow> c = CHR ''-'' \<and>
         (digits1 r \<or>
          (case dropWhile is_digit r of
             [] \<Rightarrow> False
           | d # f \<Rightarrow> d = CHR ''.'' \<and> digits1 f)))"

text \<open>
  An option tuple: the action (\<open>None\<close> for a string that looks like an option but names
  none), the option string, the separator and the explicit argument.
\<close>

datatype optuple =
  OptTuple (opt_action: "action option") (opt_string: string)
    (opt_sep: "string option") (opt_explicit: "string option")

definition get_option_tuples :: "string \<Rightarrow> optuple list" where
  "get_option_tuples s =
    (case s of
       c0 # c1 # rest \<Rightarrow>
         if c1 = CHR ''-'' then
           (case partition_str CHR ''='' s of
              (option_prefix, found, e) \<Rightarrow>
                map (\<lambda>(os, a). OptTuple (Some a) os
                       (if found then Some ''='' else None) (if found then Some e else None))
                  (filter (\<lambda>(os, a). startswith os option_prefix) option_string_actions))
         else
           concat (map (\<lambda>(os, a).
               if os = take 2 s then [OptTuple (Some a) os (Some []) (Some (drop 2 s))]
               else if startswith os s then [OptTuple (Some a) os None None]
               else [])
             option_string_actions)
     | _ \<Rightarrow> [])"

definition parse_optional :: "string \<Rightarrow> error + optuple option" where
  "parse_optional arg_string =
    (if arg_string = [] then Inr None
     else if hd arg_string \<noteq> CHR ''-'' then Inr None
     else case map_of option_string_actions arg_string of
       Some a \<Rightarrow> Inr (Some (OptTuple (Some a) arg_string None None))
     | None \<Rightarrow>
        if length arg_string = 1 then Inr None
        else case partition_str CHR ''='' arg_string of
          (option_string, found, explicit_arg) \<Rightarrow>
            (case (if found then map_of option_string_actions option_string else None) of
               Some a \<Rightarrow> Inr (Some (OptTuple (Some a) option_string (Some ''='') (Some explicit_arg)))
             | None \<Rightarrow>
                (case get_option_tuples arg_string of
                   [] \<Rightarrow>
                     if negative_number_matcher arg_string then Inr None
                     else if CHR '' '' \<in> set arg_string then Inr None
                     else Inr (Some (OptTuple None arg_string None None))
                 | [t] \<Rightarrow> Inr (Some t)
                 | t # t' # ts \<Rightarrow>
                     Inl (UsageError (AmbiguousOption arg_string
                           (map opt_string (t # t' # ts)))))))"

text \<open>
  The first pass of \<open>_parse_known_args\<close>: every argument string is classed as an
  option with its tuple (\<open>O\<close> in the parser's pattern string), as an argument (\<open>A\<close>)
  or, for the first \<^verbatim>\<open>--\<close>, as the separator; everything after the separator is an
  argument. An ambiguous abbreviation ends the run here,
  before any action is taken.
\<close>

datatype tok = Arg | Sep | Opt optuple

fun classify :: "string list \<Rightarrow> error + tok list" where
  "classify [] = Inr []"
| "classify (arg_string # rest) =
    (if arg_string = ''--'' then Inr (Sep # map (\<lambda>_. Arg) rest)
     else case parse_optional arg_string of
       Inl e \<Rightarrow> Inl e
     | Inr t \<Rightarrow>
        (case classify rest of
           Inl e \<Rightarrow> Inl e
         | Inr ts \<Rightarrow> Inr ((case t of None \<Rightarrow> Arg | Some tup \<Rightarrow> Opt tup) # ts)))"

text \<open>
  The state of the second pass: the namespace, the actions seen so far and the strings
  nothing consumed.
\<close>

record parse_state =
  ns :: namespace
  seen_actions :: "action list"
  extras :: "string list"

definition initial_state :: parse_state where
  "initial_state = \<lparr>ns = default_namespace, seen_actions = [], extras = []\<rparr>"

text \<open>
  \<open>_get_values\<close> for a \<open>store\<close> option: the matcher hands over exactly one string, which
  is the value (no \<open>type\<close> conversion, no \<open>choices\<close>).
\<close>

definition get_values :: "string list \<Rightarrow> string option" where
  "get_values arg_strings = (case arg_strings of [v] \<Rightarrow> Some v | _ \<Rightarrow> None)"

text \<open>
  \<open>take_action\<close>: the action is recorded as seen and called. \<open>store\<close> sets its attribute
  to the value, \<open>store_true\<close> sets it to \<open>True\<close>, the help action prints the help text
  and exits with status 0.
\<close>

fun call_action :: "action \<Rightarrow> string list \<Rightarrow> namespace \<Rightarrow> error + namespace" where
  "call_action Help args n = Inl HelpExit"
| "call_action ModelFile args n = Inr (n\<lparr>model_file := get_values args\<rparr>)"
| "call_action DictDir args n = Inr (n\<lparr>dict_dir := get_values args\<rparr>)"
| "call_action OutputPath args n = Inr (n\<lparr>output_path := get_values args\<rparr>)"
| "call_action TestFile args n = Inr (n\<lparr>test_file := get_values args\<rparr>)"
| "call_action Debug args n = Inr (n\<lparr>debug := True\<rparr>)"
| "call_action Quantize args n = Inr (n\<lparr>quantize := True\<rparr>)"
| "call_action OptimizeForMobile args n = Inr (n\<lparr>optimize_for_mobile := True\<rparr>)"

definition take_action :: "action \<Rightarrow> string list \<Rightarrow> parse_state \<Rightarrow> error + parse_state" where
  "take_action a args st =
    (case call_action a args (ns st) of
       Inl e \<Rightarrow> Inl e
     | Inr n \<Rightarrow> Inr (st\<lparr>ns := n, seen_actions := a # seen_actions st\<rparr>))"

text \<open>
  \<open>consume_optional\<close> for a single-dash option without argument that comes with an
  explicit argument (\<^verbatim>\<open>-hx\<close>, \<^verbatim>\<open>-h=x\<close>); the only single-dash option of this parser
  is \<open>-h\<close>. The parser tries to read the tail as further single-dash options. \<open>sep\<close> tells whether the tail was introduced
  by \<^verbatim>\<open>=\<close>. The loop either raises \<open>ignored explicit argument\<close> or reaches
  \<open>take_action\<close> with the help action first in its list, which exits.
\<close>

definition single_dash :: "string \<Rightarrow> bool" where
  "single_dash option_string =
    (case option_string of c0 # c1 # rest \<Rightarrow> c1 \<noteq> CHR ''-'' | _ \<Rightarrow> False)"

fun consume_short_help :: "bool \<Rightarrow> string \<Rightarrow> error" where
  "consume_short_help sep [] = UsageError (IgnoredExplicitArgument Help [])"
| "consume_short_help sep (c # cs) =
    (if sep \<or> c = CHR ''-'' then UsageError (IgnoredExplicitArgument Help (c # cs))
     else if c = CHR ''h'' then
       (case cs of
          [] \<Rightarrow> HelpExit
        | d # ds \<Rightarrow> if d = CHR ''='' then consume_short_help True ds
                   else consume_short_help False cs)
     else HelpExit)"

text \<open>
  The second pass, over the argument strings paired with their classes. No positional
  argument is declared, so every argument and the separator that no option consumes goes to
  \<open>extras\<close>, and so does a string that looks like an option but names none. An option
  is consumed by \<open>consume_optional\<close>:
  \<^item> with an explicit argument (\<^verbatim>\<open>--opt=value\<close>): a \<open>store\<close> option takes it; for an
    option without argument it is an error (\<open>-h\<close> apart, see above);
  \<^item> without one: a \<open>store\<close> option needs the next string to be an argument
    (pattern \<^verbatim>\<open>(A)\<close>), or else \<open>expected one argument\<close>; a flag takes nothing.
\<close>

fun consume :: "(string \<times> tok) list \<Rightarrow> parse_state \<Rightarrow> error + parse_state" where
  "consume [] st = Inr st"
| "consume ((arg_string, Arg) # rest) st = consume rest (st\<lparr>extras := extras st @ [arg_string]\<rparr>)"
| "consume ((arg_string, Sep) # rest) st = consume rest (st\<lparr>extras := extras st @ [arg_string]\<rparr>)"
| "consume ((arg_string, Opt (OptTuple None option_string sep explicit_arg)) # rest) st =
    consume rest (st\<lparr>extras := extras st @ [arg_string]\<rparr>)"
| "consume ((arg_string, Opt (OptTuple (Some a) option_string sep (Some e))) # rest) st =
    (if takes_argument a then
       (case take_action a [e] st of Inl err \<Rightarrow> Inl err | Inr st' \<Rightarrow> consume rest st')
     else if single_dash option_string \<and> e \<noteq> [] then Inl (consume_short_help (sep = Some ''='') e)
     else Inl (UsageError (IgnoredExplicitArgument a e)))"
| "consume ((arg_string, Opt (OptTuple (Some a) option_string sep None)) # rest) st =
    (if takes_argument a then
       (case rest of
          (v, Arg) # rest' \<Rightarrow>
            (case take_action a [v] st of Inl err \<Rightarrow> Inl err | Inr st' \<Rightarrow> consume rest' st')
        | _ \<Rightarrow> Inl (UsageError (ExpectedOneArgument a)))
     else
       (case take_action a [] st of Inl err \<Rightarrow> Inl err | Inr st' \<Rightarrow> consume rest st'))"

text \<open>
  \<open>parse_args\<close>: classify, consume, then check the required options (\<open>the following
  arguments are required\<close>) and, last, that nothing is left over (\<open>unrecognized
  arguments\<close>).
\<close>

definition parse_args :: "string list \<Rightarrow> error + namespace" where
  "parse_args argv =
    (case classify argv of
       Inl e \<Rightarrow> Inl e
     | Inr toks \<Rightarrow>
        (case consume (zip argv toks) initial_state of
           Inl e \<Rightarrow> Inl e
         | Inr st \<Rightarrow>
            (case filter (\<lambda>a. required a \<and> a \<notin> set (seen_actions st))
                    (remdups (map snd option_string_actions)) of
               r # rs \<Rightarrow> Inl (UsageError (RequiredArguments (r # rs)))
             | [] \<Rightarrow>
                if extras st \<noteq> [] then Inl (UsageError (UnrecognizedArguments (extras st)))
                else Inr (ns st))))"

text \<open>
  An option is supplied on a command line when one of the argument strings before the
  separator \<^verbatim>\<open>--\<close> names it: as its option string, as an unambiguous abbreviation of
  it, or in the form \<^verbatim>\<open>option=value\<close>.
\<close>

definition names_action :: "action \<Rightarrow> string \<Rightarrow> bool" where
  "names_action a arg_string =
    (case parse_optional arg_string of
       Inr (Some tup) \<Rightarrow> opt_action tup = Some a
     | _ \<Rightarrow> False)"

definition supplied :: "action \<Rightarrow> string list \<Rightarrow> bool" where
  "supplied a argv = list_ex (names_action a) (takeWhile (\<lambda>s. s \<noteq> ''--'') argv)"

text \<open>The actions named by the option tokens of a classified command line.\<close>

fun named :: "(string \<times> tok) list \<Rightarrow> action list" where
  "named [] = []"
| "named ((s, Opt (OptTuple (Some a) option_string sep explicit_arg)) # rest) = a # named rest"
| "named (x # rest) = named rest"

text \<open>An option token is registered when its option string and action are in the
  parser's table.\<close>

fun registered :: "tok \<Rightarrow> bool" where
  "registered (Opt (OptTuple (Some a) option_string sep explicit_arg)) =
     ((option_string, a) \<in> set option_string_actions)"
| "registered t = True"


subsection \<open>The three stages\<close>

text \<open>
  A waveform is a tensor of samples together with the rate at which they were sampled.
  The Python tensor does not carry the rate; the field \<open>rate\<close> records what the
  samples mean, so that the guarantee of the Loader can be stated.
\<close>

record 't waveform =
  samples :: 't
  rate :: real

text \<open>
  Modelled from the spec: \<open>torchaudio.load\<close>, which is not under src/. It decodes the
  audio file at \<open>path\<close> and returns the waveform with its native sample rate, or
  propagates a decoding error. The content of the file system is the parameter \<open>files\<close>.
\<close>

definition torchaudio_load ::
  "(string \<Rightarrow> error + 't \<times> int) \<Rightarrow> string \<Rightarrow> error + 't waveform \<times> int" where
  "torchaudio_load files path =
    (case files path of
       Inl e \<Rightarrow> Inl e
     | Inr (s, sr) \<Rightarrow> Inr (\<lparr>samples = s, rate = of_int sr\<rparr>, sr))"

text \<open>
  Modelled from the spec: \<open>torchaudio.functional.resample\<close>, which is not under src/.
  It resamples a waveform from \<open>orig_freq\<close> to \<open>new_freq\<close>: the result is a waveform at
  \<open>new_freq\<close>. The interpolation of the samples is out of scope; it is the parameter
  \<open>interp\<close>.
\<close>

definition resample ::
  "('t \<Rightarrow> real \<Rightarrow> real \<Rightarrow> 't) \<Rightarrow> 't waveform \<Rightarrow> real \<Rightarrow> real \<Rightarrow> 't waveform" where
  "resample interp waveform orig_freq new_freq =
    \<lparr>samples = interp (samples waveform) orig_freq new_freq, rate = new_freq\<rparr>"

text \<open>\<open>Loader.forward\<close>. \<open>float(sample_rate)\<close> is the integer as a real number.\<close>

definition Loader_forward ::
  "(string \<Rightarrow> error + 't \<times> int) \<Rightarrow> ('t \<Rightarrow> real \<Rightarrow> real \<Rightarrow> 't) \<Rightarrow> string \<Rightarrow> error + 't waveform" where
  "Loader_forward files interp audio_path =
    (case torchaudio_load files audio_path of
       Inl e \<Rightarrow> Inl e
     | Inr (waveform, sample_rate) \<Rightarrow>
         Inr (if sample_rate \<noteq> 16000
              then resample interp waveform (of_int sample_rate) 16000
              else waveform))"

text \<open>The wrapper class \<open>Encoder\<close> and \<open>Encoder.forward\<close>: the model returns a pair, of
  which the second component is dropped.\<close>

datatype 'm Encoder = Encoder (encoder: 'm)

definition Encoder_forward ::
  "('m \<Rightarrow> 't waveform \<Rightarrow> error + 't \<times> 't option) \<Rightarrow> 'm Encoder \<Rightarrow> 't waveform \<Rightarrow> error + 't" where
  "Encoder_forward model_forward self waveform =
    (case model_forward (encoder self) waveform of
       Inl e \<Rightarrow> Inl e
     | Inr (result, aux) \<Rightarrow> Inr result)"

text \<open>The wrapper class \<open>Decoder\<close>: one attribute, the wrapped decoder object.\<close>

datatype 'd Decoder = Decoder (decoder: 'd)

definition get_decoder :: "(beam_search_args \<Rightarrow> 'd) \<Rightarrow> 'd Decoder" where
  "get_decoder BeamSearchDecoder = Decoder (BeamSearchDecoder decoder_args)"

text \<open>
  The result of the wrapped decoder's \<open>decode\<close>: the attribute read by the script is
  \<open>label_sequences\<close>, indexed by batch entry, then by hypothesis (best first), giving
  a list of labels.
\<close>

record beam_search_result =
  label_sequences :: "string list list list"

text \<open>Python's \<open>xs[0]\<close>: \<open>IndexError\<close> on the empty list.\<close>

definition index0 :: "'x list \<Rightarrow> error + 'x" where
  "index0 xs = (case xs of [] \<Rightarrow> Inl IndexError | x # rest \<Rightarrow> Inr x)"

text \<open>
  Python's \<open>str.replace(old, new)\<close>: the occurrences of \<open>old\<close> are replaced from left
  to right, without overlap; for the empty \<open>old\<close>, \<open>new\<close> is put before every character
  and at the end.
\<close>

function replace_all :: "string \<Rightarrow> string \<Rightarrow> string \<Rightarrow> string" where
  "replace_all [] old new = []"
| "replace_all (c # cs) old new =
    (if old \<noteq> [] \<and> startswith (c # cs) old
     then new @ replace_all (drop (length old) (c # cs)) old new
     else c # replace_all cs old new)"
  by pat_completeness auto
termination
  by (relation "measure (\<lambda>(s, old, new). length s)") (auto simp add: neq_Nil_conv)

definition str_replace :: "string \<Rightarrow> string \<Rightarrow> string \<Rightarrow> string" where
  "str_replace s old new =
    (if old = [] then new @ concat (map (\<lambda>c. c # new) s) else replace_all s old new)"

text \<open>
  \<open>Decoder.forward\<close>. The wrapped decoder is an object of an external library: a call
  of \<open>decode\<close> returns a result or raises, and may change the object.
\<close>

definition Decoder_forward ::
  "('d \<Rightarrow> 't \<Rightarrow> (error + beam_search_result) \<times> 'd) \<Rightarrow> 'd Decoder \<Rightarrow> 't \<Rightarrow> (error + string) \<times> 'd Decoder" where
  "Decoder_forward decode self emission =
    (case decode (decoder self) emission of
       (Inl e, d) \<Rightarrow> (Inl e, Decoder d)
     | (Inr result, d) \<Rightarrow>
        (case index0 (label_sequences result) of
           Inl e \<Rightarrow> (Inl e, Decoder d)
         | Inr hyps \<Rightarrow>
            (case index0 hyps of
               Inl e \<Rightarrow> (Inl e, Decoder d)
             | Inr best \<Rightarrow> (Inr (str_replace (concat best) ''|'' '' ''), Decoder d))))"


subsection \<open>The environment of the script\<close>

text \<open>
  The script calls libraries that are not part of it: \<open>fairseq\<close> (checkpoint loading),
  the importer of \<open>torchaudio\<close>, \<open>torch\<close> (quantization, scripting, mobile optimisation,
  saving) and \<open>simple_ctc\<close> (beam search). Each call is a field of the environment; a
  call that can raise returns a sum. The type parameters are the library's tensors
  \<open>'t\<close>, the fairseq model \<open>'f\<close> and its arguments \<open>'c\<close>, the imported model \<open>'m\<close>, the
  beam-search decoder object \<open>'d\<close> and scripted modules \<open>'s\<close>.
\<close>

datatype ('m, 'd) module =
  LoaderModule | EncoderModule "'m Encoder" | DecoderModule "'d Decoder"

record ('t, 'f, 'c, 'm, 'd, 's) env =
  audio_files :: "string \<Rightarrow> error + 't \<times> int"
  interp :: "'t \<Rightarrow> real \<Rightarrow> real \<Rightarrow> 't"
  load_model_ensemble_and_task ::
    "string option list \<Rightarrow> (string \<times> string) list \<Rightarrow> error + 'f list \<times> 'c"
  import_fairseq_finetuned_model :: "'f \<Rightarrow> 'c \<Rightarrow> error + 'm"
  eval_mode :: "'m \<Rightarrow> 'm"
  model_forward :: "'m \<Rightarrow> 't waveform \<Rightarrow> error + 't \<times> 't option"
  prepare_scriptable :: "'m \<Rightarrow> error + 'm"
  quantize_dynamic :: "'m Encoder \<Rightarrow> error + 'm Encoder"
  BeamSearchDecoder :: "beam_search_args \<Rightarrow> 'd"
  decode :: "'d \<Rightarrow> 't \<Rightarrow> (error + beam_search_result) \<times> 'd"
  module_str :: "'m Encoder \<Rightarrow> string"
  jit_script :: "('m, 'd) module \<Rightarrow> error + 's"
  mobile_optimizer :: "'s \<Rightarrow> error + 's"
  save :: "'s \<Rightarrow> string \<Rightarrow> error option"


subsection \<open>Model loading: \<open>_load_fairseq_model\<close> and \<open>_get_model\<close>\<close>

text \<open>\<open>if data_dir:\<close> holds for a string that is neither \<open>None\<close> nor empty.\<close>

definition truthy :: "string option \<Rightarrow> bool" where
  "truthy v = (case v of None \<Rightarrow> False | Some s \<Rightarrow> s \<noteq> [])"

definition load_fairseq_model ::
  "('t, 'f, 'c, 'm, 'd, 's) env \<Rightarrow> string option \<Rightarrow> string option \<Rightarrow> error + 'f \<times> 'c" where
  "load_fairseq_model env input_file data_dir =
    (let overrides = (if truthy data_dir then [(''data'', the data_dir)] else []) in
     case load_model_ensemble_and_task env [input_file] overrides of
       Inl e \<Rightarrow> Inl e
     | Inr (model, args) \<Rightarrow>
        (case index0 model of
           Inl e \<Rightarrow> Inl e
         | Inr model0 \<Rightarrow> Inr (model0, args)))"

definition get_model ::
  "('t, 'f, 'c, 'm, 'd, 's) env \<Rightarrow> string option \<Rightarrow> string option \<Rightarrow> error + 'm" where
  "get_model env model_file' dict_dir' =
    (case load_fairseq_model env model_file' dict_dir' of
       Inl e \<Rightarrow> Inl e
     | Inr (original, args) \<Rightarrow> import_fairseq_finetuned_model env original args)"


subsection \<open>Logging: \<open>_init_logging\<close>\<close>

text \<open>
  \<open>logging.basicConfig\<close> sets the level of the root logger (\<open>DEBUG\<close> is 10, \<open>INFO\<close> is
  20) and the format. \<open>_LG.info\<close> emits a record when the level is at most \<open>INFO\<close>. What
  the run does to the outside is a list of events: messages logged and files written.
\<close>

record logging_config =
  level :: nat
  format :: string

definition init_logging :: "bool \<Rightarrow> logging_config" where
  "init_logging debug' =
    \<lparr>level = (if debug' then 10 else 20),
     format = (if \<not> debug' then ''%(message)s''
               else ''%(asctime)s: %(levelname)7s: %(funcName)10s: %(message)s'')\<rparr>"

datatype 's event = Log string | Write string 's

definition info :: "logging_config \<Rightarrow> string \<Rightarrow> 's event list" where
  "info cfg msg = (if level cfg \<le> 20 then [Log msg] else [])"


subsection \<open>The build procedure: \<open>_main\<close>\<close>

text \<open>
  \<open>os.path.join\<close> (POSIX flavour) of a directory and a file name; \<open>None\<close> in place of
  the directory raises \<open>TypeError\<close>.
\<close>

definition os_path_join :: "string option \<Rightarrow> string \<Rightarrow> error + string" where
  "os_path_join a b =
    (case a of
       None \<Rightarrow> Inl TypeError
     | Some path \<Rightarrow>
         Inr (if startswith b ''/'' then b
              else if path = [] \<or> last path = CHR ''/'' then path @ b
              else path @ ''/'' @ b))"

text \<open>
  Each part of \<open>_main\<close> returns its result, or the exception that ended it, together
  with the events it produced up to that point.

  The block \<open>if args.quantize:\<close>. \<open>__prepare_scriptable__\<close> changes the model in place,
  which \<open>encoder\<close> wraps; \<open>quantize_dynamic\<close> returns the new encoder.
\<close>

definition quantize_block ::
  "('t, 'f, 'c, 'm, 'd, 's) env \<Rightarrow> logging_config \<Rightarrow> namespace \<Rightarrow> 'm Encoder
    \<Rightarrow> (error + 'm Encoder) \<times> 's event list" where
  "quantize_block env lg args enc =
    (if quantize args then
       (let ev = info lg ''Quantizing the model'' in
        case prepare_scriptable env (encoder enc) of
          Inl e \<Rightarrow> (Inl e, ev)
        | Inr model \<Rightarrow>
           (case quantize_dynamic env (Encoder model) of
              Inl e \<Rightarrow> (Inl e, ev)
            | Inr enc' \<Rightarrow> (Inr enc', ev @ info lg (module_str env enc'))))
     else (Inr enc, []))"

text \<open>The block \<open>if args.test_file:\<close>, the self-test.\<close>

definition test_block ::
  "('t, 'f, 'c, 'm, 'd, 's) env \<Rightarrow> logging_config \<Rightarrow> namespace \<Rightarrow> 'm Encoder \<Rightarrow> 'd Decoder
    \<Rightarrow> (error + 'd Decoder) \<times> 's event list" where
  "test_block env lg args enc dec =
    (if truthy (test_file args) then
       (let ev = info lg (''Testing with '' @ the (test_file args)) in
        case Loader_forward (audio_files env) (interp env) (the (test_file args)) of
          Inl e \<Rightarrow> (Inl e, ev)
        | Inr waveform \<Rightarrow>
           (case Encoder_forward (model_forward env) enc waveform of
              Inl e \<Rightarrow> (Inl e, ev)
            | Inr emission \<Rightarrow>
               (case Decoder_forward (decode env) dec emission of
                  (Inl e, dec') \<Rightarrow> (Inl e, ev)
                | (Inr transcript, dec') \<Rightarrow> (Inr dec', ev @ info lg transcript))))
     else (Inr dec, []))"

text \<open>
  One statement \<open>torch.jit.script(m).save(os.path.join(args.output_path, name))\<close>: the
  module is scripted first, then the path is joined, then the file is written.
\<close>

definition save_scripted ::
  "('t, 'f, 'c, 'm, 'd, 's) env \<Rightarrow> namespace \<Rightarrow> 's \<Rightarrow> string \<Rightarrow> (error + unit) \<times> 's event list" where
  "save_scripted env args scripted name =
    (case os_path_join (output_path args) name of
       Inl e \<Rightarrow> (Inl e, [])
     | Inr path \<Rightarrow>
        (case save env scripted path of
           Some e \<Rightarrow> (Inl e, [])
         | None \<Rightarrow> (Inr (), [Write path scripted])))"

text \<open>The last six lines of \<open>_main\<close>.\<close>

definition save_block ::
  "('t, 'f, 'c, 'm, 'd, 's) env \<Rightarrow> namespace \<Rightarrow> 'm Encoder \<Rightarrow> 'd Decoder
    \<Rightarrow> (error + unit) \<times> 's event list" where
  "save_block env args enc dec =
    (case jit_script env LoaderModule of
       Inl e \<Rightarrow> (Inl e, [])
     | Inr sl \<Rightarrow>
        (case save_scripted env args sl ''loader.zip'' of
           (Inl e, ev1) \<Rightarrow> (Inl e, ev1)
         | (Inr u1, ev1) \<Rightarrow>
            (case jit_script env (DecoderModule dec) of
               Inl e \<Rightarrow> (Inl e, ev1)
             | Inr sd \<Rightarrow>
                (case save_scripted env args sd ''decoder.zip'' of
                   (Inl e, ev2) \<Rightarrow> (Inl e, ev1 @ ev2)
                 | (Inr u2, ev2) \<Rightarrow>
                    (case jit_script env (EncoderModule enc) of
                       Inl e \<Rightarrow> (Inl e, ev1 @ ev2)
                     | Inr scripted \<Rightarrow>
                        (case (if optimize_for_mobile args then mobile_optimizer env scripted
                               else Inr scripted) of
                           Inl e \<Rightarrow> (Inl e, ev1 @ ev2)
                         | Inr scripted' \<Rightarrow>
                            (case save_scripted env args scripted' ''encoder.zip'' of
                               (r, ev3) \<Rightarrow> (r, ev1 @ ev2 @ ev3))))))))"

text \<open>
  \<open>_main\<close> after the command line has been parsed, up to the self-test: logging is
  set up, the model is loaded, converted and put in inference mode, the stages are
  built, the encoder is logged, then the two optional blocks run.
\<close>

definition prepare ::
  "('t, 'f, 'c, 'm, 'd, 's) env \<Rightarrow> namespace \<Rightarrow> (error + 'm Encoder \<times> 'd Decoder) \<times> 's event list" where
  "prepare env args =
    (let lg = init_logging (debug args) in
     case get_model env (model_file args) (dict_dir args) of
       Inl e \<Rightarrow> (Inl e, [])
     | Inr imported \<Rightarrow>
        (let model = eval_mode env imported;
             enc = Encoder model;
             dec = get_decoder (BeamSearchDecoder env);
             ev0 = info lg (module_str env enc)
         in case quantize_block env lg args enc of
              (Inl e, ev1) \<Rightarrow> (Inl e, ev0 @ ev1)
            | (Inr enc', ev1) \<Rightarrow>
               (case test_block env lg args enc' dec of
                  (Inl e, ev2) \<Rightarrow> (Inl e, ev0 @ ev1 @ ev2)
                | (Inr dec', ev2) \<Rightarrow> (Inr (enc', dec'), ev0 @ ev1 @ ev2))))"

text \<open>\<open>_main\<close> after the command line has been parsed.\<close>

definition build ::
  "('t, 'f, 'c, 'm, 'd, 's) env \<Rightarrow> namespace \<Rightarrow> (error + unit) \<times> 's event list" where
  "build env args =
    (case prepare env args of
       (Inl e, ev) \<Rightarrow> (Inl e, ev)
     | (Inr (enc, dec), ev) \<Rightarrow>
        (case save_block env args enc dec of
           (r, ev3) \<Rightarrow> (r, ev @ ev3)))"

text \<open>\<open>_main\<close>: nothing happens before the command line is parsed.\<close>

definition main ::
  "('t, 'f, 'c, 'm, 'd, 's) env \<Rightarrow> string list \<Rightarrow> (error + unit) \<times> 's event list" where
  "main env argv =
    (case parse_args argv of
       Inl e \<Rightarrow> (Inl e, [])
     | Inr args \<Rightarrow> build env args)"

text \<open>The files a run has written, in order.\<close>

fun written :: "'s event list \<Rightarrow> (string \<times> 's) list" where
  "written [] = []"
| "written (Log msg # evs) = written evs"
| "written (Write path s # evs) = (path, s) # written evs"


subsection \<open>Command lines in canonical form\<close>

text \<open>
  The documented options, each written in full and followed by its value as the next
  argument string. A value is plain when the parser classes it as an argument: it is
  not the separator and does not look like an option.
\<close>

datatype cli_option =
    OptModelFile string
  | OptDictDir string
  | OptOutputPath string
  | OptTestFile string
  | FlagDebug
  | FlagQuantize
  | FlagOptimizeForMobile

fun render_option :: "cli_option \<Rightarrow> string list" where
  "render_option (OptModelFile v) = [''--model-file'', v]"
| "render_option (OptDictDir v) = [''--dict-dir'', v]"
| "render_option (OptOutputPath v) = [''--output-path'', v]"
| "render_option (OptTestFile v) = [''--test-file'', v]"
| "render_option FlagDebug = [''--debug'']"
| "render_option FlagQuantize = [''--quantize'']"
| "render_option FlagOptimizeForMobile = [''--optimize-for-mobile'']"

definition render :: "cli_option list \<Rightarrow> string list" where
  "render opts = concat (map render_option opts)"

fun option_action :: "cli_option \<Rightarrow> action" where
  "option_action (OptModelFile v) = ModelFile"
| "option_action (OptDictDir v) = DictDir"
| "option_action (OptOutputPath v) = OutputPath"
| "option_action (OptTestFile v) = TestFile"
| "option_action FlagDebug = Debug"
| "option_action FlagQuantize = Quantize"
| "option_action FlagOptimizeForMobile = OptimizeForMobile"

definition plain_value :: "string \<Rightarrow> bool" where
  "plain_value v = (v \<noteq> ''--'' \<and> parse_optional v = Inr None)"

fun plain_option :: "cli_option \<Rightarrow> bool" where
  "plain_option (OptModelFile v) = plain_value v"
| "plain_option (OptDictDir v) = plain_value v"
| "plain_option (OptOutputPath v) = plain_value v"
| "plain_option (OptTestFile v) = plain_value v"
| "plain_option opt = True"

fun apply_option :: "cli_option \<Rightarrow> namespace \<Rightarrow> namespace" where
  "apply_option (OptModelFile v) n = n\<lparr>model_file := Some v\<rparr>"
| "apply_option (OptDictDir v) n = n\<lparr>dict_dir := Some v\<rparr>"
| "apply_option (OptOutputPath v) n = n\<lparr>output_path := Some v\<rparr>"
| "apply_option (OptTestFile v) n = n\<lparr>test_file := Some v\<rparr>"
| "apply_option FlagDebug n = n\<lparr>debug := True\<rparr>"
| "apply_option FlagQuantize n = n\<lparr>quantize := True\<rparr>"
| "apply_option FlagOptimizeForMobile n = n\<lparr>optimize_for_mobile := True\<rparr>"


text \<open>The tokens of an option in canonical form, and the directory part of an
  artifact path as \<open>os.path.join\<close> builds it.\<close>

fun option_toks :: "cli_option \<Rightarrow> tok list" where
  "option_toks (OptModelFile v) = [Opt (OptTuple (Some ModelFile) ''--model-file'' None None), Arg]"
| "option_toks (OptDictDir v) = [Opt (OptTuple (Some DictDir) ''--dict-dir'' None None), Arg]"
| "option_toks (OptOutputPath v) = [Opt (OptTuple (Some OutputPath) ''--output-path'' None None), Arg]"
| "option_toks (OptTestFile v) = [Opt (OptTuple (Some TestFile) ''--test-file'' None None), Arg]"
| "option_toks FlagDebug = [Opt (OptTuple (Some Debug) ''--debug'' None None)]"
| "option_toks FlagQuantize = [Opt (OptTuple (Some Quantize) ''--quantize'' None None)]"
| "option_toks FlagOptimizeForMobile =
     [Opt (OptTuple (Some OptimizeForMobile) ''--optimize-for-mobile'' None None)]"

definition directory_prefix :: "string \<Rightarrow> string" where
  "directory_prefix out = (if out = [] \<or> last out = CHR ''/'' then out else out @ ''/'')"


subsection \<open>A concrete environment\<close>

text \<open>
  A small environment on which the definitions can be run: samples and emissions are
  lists of integers, the model passes the samples through as frame labels, the decoder
  collapses repeated labels and drops blanks, scripted modules are strings, and the
  directory \<open>/full\<close> has room for one file only.
\<close>

definition example_files :: "string \<Rightarrow> error + int list \<times> int" where
  "example_files path =
    (if path = ''hi8k.wav'' then Inr ([11, 0, 10], 8000)
     else if path = ''hi.wav'' then Inr ([11, 11, 0, 10, 4, 4, 11, 0, 10], 16000)
     else if path = ''silence.wav'' then Inr ([0, 0, 0, 0], 16000)
     else Inl (ExternalError ''cannot open file''))"

definition example_interp :: "int list \<Rightarrow> real \<Rightarrow> real \<Rightarrow> int list" where
  "example_interp s orig_freq new_freq = concat (map (\<lambda>x. [x, x]) s)"

definition example_decode :: "nat \<Rightarrow> int list \<Rightarrow> (error + beam_search_result) \<times> nat" where
  "example_decode calls emission =
    (Inr \<lparr>label_sequences =
        [[map (\<lambda>i. if nat i < 32 then decoder_labels ! nat i else ''<unk>'')
            (filter (\<lambda>i. i \<noteq> 0) (remdups_adj emission))]]\<rparr>,
     Suc calls)"

definition example_env :: "(int list, string, string, string, nat, string) env" where
  "example_env =
    \<lparr>audio_files = example_files,
     interp = example_interp,
     load_model_ensemble_and_task =
       (\<lambda>files overrides.
          if files = [Some ''wav2vec_small.pt''] then Inr ([''wav2vec2''], ''cfg'')
          else Inl (ExternalError ''checkpoint not found'')),
     import_fairseq_finetuned_model = (\<lambda>original args. Inr (''imported '' @ original)),
     eval_mode = (\<lambda>m. m),
     model_forward = (\<lambda>m w. Inr (samples w, None)),
     prepare_scriptable = (\<lambda>m. Inr m),
     quantize_dynamic = (\<lambda>enc. Inr (Encoder (''quantized '' @ encoder enc))),
     BeamSearchDecoder = (\<lambda>args. 0),
     decode = example_decode,
     module_str = (\<lambda>enc. ''Encoder('' @ encoder enc @ '')''),
     jit_script =
       (\<lambda>m. case m of
          LoaderModule \<Rightarrow> Inr ''scripted Loader''
        | EncoderModule enc \<Rightarrow> Inr (''scripted Encoder of '' @ encoder enc)
        | DecoderModule dec \<Rightarrow> Inr ''scripted Decoder''),
     mobile_optimizer = (\<lambda>s. Inr (''mobile '' @ s)),
     save = (\<lambda>s path. if startswith path ''/full/decoder''
                        then Some (ExternalError ''disk full'') else None)\<rparr>"




section \<open>Properties\<close>

subsection \<open>String replacement\<close>

lemma startswith_single: "startswith (x # xs) [c] = (x = c)"
  by (simp add: startswith_def)

lemma replace_all_char:
  "replace_all s [c] [d] = map (\<lambda>x. if x = c then d else x) s"
  by (induction s) (simp_all add: startswith_single)

lemma str_replace_char:
  "str_replace s [c] [d] = map (\<lambda>x. if x = c then d else x) s"
  by (simp add: str_replace_def replace_all_char)


subsection \<open>The parser: option tokens come from the table\<close>

lemma get_option_tuples_registered:
  "t \<in> set (get_option_tuples s) \<Longrightarrow> registered (Opt t)"
  unfolding get_option_tuples_def
  by (auto split: list.splits prod.splits if_splits)

lemma parse_optional_registered:
  assumes "parse_optional s = Inr (Some t)"
  shows "registered (Opt t)"
proof -
  have "t \<in> set (get_option_tuples s)
        \<or> (\<exists>os a sep ex. t = OptTuple (Some a) os sep ex \<and> map_of option_string_actions os = Some a)
        \<or> (\<exists>os sep ex. t = OptTuple None os sep ex)"
    using assms unfolding parse_optional_def
    by (auto split: if_splits option.splits prod.splits list.splits)
  then show ?thesis
    by (auto dest: get_option_tuples_registered map_of_SomeD)
qed

lemma registered_single_dash:
  "(os, a) \<in> set option_string_actions \<Longrightarrow> single_dash os \<Longrightarrow> a = Help"
  by (auto simp add: option_string_actions_def single_dash_def)

lemma named_all_args [simp]: "named (zip rest (map (\<lambda>_. Arg) rest)) = []"
  by (induction rest) simp_all

lemma classify_registered: "classify argv = Inr toks \<Longrightarrow> list_all registered toks"
proof (induction argv arbitrary: toks)
  case Nil
  then show ?case by simp
next
  case (Cons s rest)
  show ?case
  proof (cases "s = ''--''")
    case True
    with Cons.prems show ?thesis by (auto simp add: list_all_iff)
  next
    case False
    with Cons.prems obtain t ts where t: "parse_optional s = Inr t" and ts: "classify rest = Inr ts"
      and toks: "toks = (case t of None \<Rightarrow> Arg | Some tup \<Rightarrow> Opt tup) # ts"
      by (auto split: sum.splits)
    have "registered (case t of None \<Rightarrow> Arg | Some tup \<Rightarrow> Opt tup)"
      using t by (cases t) (auto dest: parse_optional_registered)
    with Cons.IH[OF ts] toks show ?thesis by simp
  qed
qed

lemma classify_named:
  "classify argv = Inr toks \<Longrightarrow> a \<in> set (named (zip argv toks)) \<Longrightarrow> supplied a argv"
proof (induction argv arbitrary: toks)
  case Nil
  then show ?case by simp
next
  case (Cons s rest)
  show ?case
  proof (cases "s = ''--''")
    case True
    with Cons.prems show ?thesis by auto
  next
    case False
    with Cons.prems(1) obtain t ts where t: "parse_optional s = Inr t" and ts: "classify rest = Inr ts"
      and toks: "toks = (case t of None \<Rightarrow> Arg | Some tup \<Rightarrow> Opt tup) # ts"
      by (auto split: sum.splits)
    have sup: "supplied a (s # rest) = (names_action a s \<or> supplied a rest)"
      using False by (simp add: supplied_def)
    have "a \<in> set (named (zip rest ts)) \<or> names_action a s"
    proof (cases t)
      case None
      with Cons.prems(2) toks show ?thesis by simp
    next
      case (Some tup)
      obtain oa os sep ex where tup: "tup = OptTuple oa os sep ex" by (cases tup)
      show ?thesis
        using Cons.prems(2) toks Some tup t
        by (cases oa) (auto simp add: names_action_def)
    qed
    with Cons.IH[OF ts] sup show ?thesis by auto
  qed
qed

lemma parse_optional_error: "parse_optional s = Inl e \<Longrightarrow> \<exists>u. e = UsageError u"
  unfolding parse_optional_def
  by (auto split: if_splits option.splits prod.splits list.splits)

lemma classify_error: "classify argv = Inl e \<Longrightarrow> \<exists>u. e = UsageError u"
  by (induction argv) (auto split: if_splits sum.splits dest: parse_optional_error)


subsection \<open>The parser: what the second pass does to the state\<close>

lemma take_action_Inr:
  "take_action a args st = Inr st' \<Longrightarrow>
     seen_actions st' = a # seen_actions st \<and> extras st' = extras st \<and> a \<noteq> Help"
  by (cases a) (auto simp add: take_action_def)

lemma take_action_Inl:
  "take_action a args st = Inl e \<Longrightarrow> e = HelpExit \<and> a = Help"
  by (cases a) (auto simp add: take_action_def)

lemma take_action_output:
  "take_action a args st = Inr st' \<Longrightarrow> a \<noteq> OutputPath \<Longrightarrow>
     output_path (ns st') = output_path (ns st)"
  by (cases a) (auto simp add: take_action_def)

lemma consume_short_help_cases:
  "consume_short_help sep e = HelpExit \<or> (\<exists>u. consume_short_help sep e = UsageError u)"
  by (induction sep e rule: consume_short_help.induct) (auto split: list.splits)

lemma consume_seen:
  "consume l st = Inr st' \<Longrightarrow> set (seen_actions st') \<subseteq> set (seen_actions st) \<union> set (named l)"
proof (induction l st arbitrary: st' rule: consume.induct)
  case (1 st)
  then show ?case by simp
next
  case (2 arg_string rest st)
  then show ?case by fastforce
next
  case (3 arg_string rest st)
  then show ?case by fastforce
next
  case (4 arg_string option_string sep explicit_arg rest st)
  then show ?case by fastforce
next
  case (5 arg_string a option_string sep e rest st)
  then show ?case
    by (fastforce split: if_splits sum.splits dest: take_action_Inr)
next
  case (6 arg_string a option_string sep rest st)
  show ?case
  proof (cases "takes_argument a")
    case True
    with 6(3) obtain v rest' st1 where rest: "rest = (v, Arg) # rest'"
      and ta: "take_action a [v] st = Inr st1" and c: "consume rest' st1 = Inr st'"
      by (auto split: list.splits prod.splits tok.splits sum.splits)
    from 6(1)[OF True rest _ _ ta c]
    have "set (seen_actions st') \<subseteq> set (seen_actions st1) \<union> set (named rest')"
      by simp
    with take_action_Inr[OF ta] rest show ?thesis by auto
  next
    case False
    with 6(3) obtain st1 where ta: "take_action a [] st = Inr st1" and c: "consume rest st1 = Inr st'"
      by (auto split: sum.splits)
    from 6(2)[OF False ta c] take_action_Inr[OF ta] show ?thesis by auto
  qed
qed


lemma consume_error:
  "list_all registered (map snd l) \<Longrightarrow> consume l st = Inl e \<Longrightarrow>
     (\<exists>u. e = UsageError u) \<or> (e = HelpExit \<and> Help \<in> set (named l))"
proof (induction l st rule: consume.induct)
  case (1 st)
  then show ?case by simp
next
  case (2 arg_string rest st)
  then show ?case by auto
next
  case (3 arg_string rest st)
  then show ?case by auto
next
  case (4 arg_string option_string sep explicit_arg rest st)
  then show ?case by auto
next
  case (5 arg_string a option_string sep e' rest st)
  show ?case
  proof (cases "takes_argument a")
    case True
    show ?thesis
    proof (cases "take_action a [e'] st")
      case (Inl err)
      with take_action_Inl[OF Inl] True show ?thesis by simp
    next
      case (Inr st1)
      with 5(1)[OF True Inr] 5(2,3) True show ?thesis by auto
    qed
  next
    case False
    show ?thesis
    proof (cases "single_dash option_string \<and> e' \<noteq> []")
      case True
      with 5(2) have "a = Help" by (auto dest: registered_single_dash)
      with 5(3) False True consume_short_help_cases[of "sep = Some ''=''" e'] show ?thesis by auto
    next
      case False
      with 5(3) \<open>\<not> takes_argument a\<close> show ?thesis by auto
    qed
  qed
next
  case (6 arg_string a option_string sep rest st)
  show ?case
  proof (cases "takes_argument a")
    case True
    show ?thesis
    proof (cases "\<exists>v rest'. rest = (v, Arg) # rest'")
      case True
      then obtain v rest' where rest: "rest = (v, Arg) # rest'" by blast
      show ?thesis
      proof (cases "take_action a [v] st")
        case (Inl err)
        with take_action_Inl[OF Inl] \<open>takes_argument a\<close> show ?thesis by simp
      next
        case (Inr st1)
        with 6(1)[OF \<open>takes_argument a\<close> rest _ _ Inr] 6(3,4) rest \<open>takes_argument a\<close> show ?thesis by auto
      qed
    next
      case False
      with 6(4) \<open>takes_argument a\<close> show ?thesis
        by (auto split: list.splits prod.splits tok.splits)
    qed
  next
    case False
    show ?thesis
    proof (cases "take_action a [] st")
      case (Inl err)
      with take_action_Inl[OF Inl] 6(4) False show ?thesis by auto
    next
      case (Inr st1)
      with 6(2)[OF False Inr] 6(3,4) False show ?thesis by auto
    qed
  qed
qed

lemma consume_output:
  "consume l st = Inr st' \<Longrightarrow> OutputPath \<notin> set (named l) \<Longrightarrow>
     output_path (ns st') = output_path (ns st)"
proof (induction l st arbitrary: st' rule: consume.induct)
  case (1 st)
  then show ?case by simp
next
  case (2 arg_string rest st)
  from 2(1)[OF 2(2)[simplified]] 2(3) show ?case by simp
next
  case (3 arg_string rest st)
  from 3(1)[OF 3(2)[simplified]] 3(3) show ?case by simp
next
  case (4 arg_string option_string sep explicit_arg rest st)
  from 4(1)[OF 4(2)[simplified]] 4(3) show ?case by simp
next
  case (5 arg_string a option_string sep e rest st)
  from 5(2) obtain st1 where t: "takes_argument a" and ta: "take_action a [e] st = Inr st1"
    and c: "consume rest st1 = Inr st'"
    by (auto split: if_splits sum.splits)
  from 5(1)[OF t ta c] 5(3) take_action_output[OF ta] show ?case by auto
next
  case (6 arg_string a option_string sep rest st)
  show ?case
  proof (cases "takes_argument a")
    case True
    with 6(3) obtain v rest' st1 where rest: "rest = (v, Arg) # rest'"
      and ta: "take_action a [v] st = Inr st1" and c: "consume rest' st1 = Inr st'"
      by (auto split: list.splits prod.splits tok.splits sum.splits)
    from 6(1)[OF True rest _ _ ta c] 6(4) rest take_action_output[OF ta] show ?thesis by auto
  next
    case False
    with 6(3) obtain st1 where ta: "take_action a [] st = Inr st1" and c: "consume rest st1 = Inr st'"
      by (auto split: sum.splits)
    from 6(2)[OF False ta c] 6(4) take_action_output[OF ta] show ?thesis by auto
  qed
qed

lemma classify_length: "classify argv = Inr toks \<Longrightarrow> length toks = length argv"
  by (induction argv arbitrary: toks) (auto split: if_splits sum.splits)

lemma required_missing:
  "filter (\<lambda>a. required a \<and> a \<notin> S) (remdups (map snd option_string_actions))
     = (if ModelFile \<in> S then [] else [ModelFile])"
  by (simp add: option_string_actions_def)

lemma accepted_without_output_path:
  assumes "parse_args argv = Inr args" and "\<not> supplied OutputPath argv"
  shows "output_path args = None"
proof -
  from assms(1) obtain toks st where c: "classify argv = Inr toks"
    and s: "consume (zip argv toks) initial_state = Inr st" and a: "args = ns st"
    by (auto simp add: parse_args_def split: sum.splits list.splits if_splits)
  from classify_named[OF c] assms(2) have "OutputPath \<notin> set (named (zip argv toks))" by blast
  from consume_output[OF s this] a show ?thesis
    by (simp add: initial_state_def default_namespace_def)
qed


subsection \<open>Command lines in canonical form are accepted\<close>

lemma parse_optional_exact:
  "parse_optional ''--model-file'' = Inr (Some (OptTuple (Some ModelFile) ''--model-file'' None None))"
  "parse_optional ''--dict-dir'' = Inr (Some (OptTuple (Some DictDir) ''--dict-dir'' None None))"
  "parse_optional ''--output-path'' = Inr (Some (OptTuple (Some OutputPath) ''--output-path'' None None))"
  "parse_optional ''--test-file'' = Inr (Some (OptTuple (Some TestFile) ''--test-file'' None None))"
  "parse_optional ''--debug'' = Inr (Some (OptTuple (Some Debug) ''--debug'' None None))"
  "parse_optional ''--quantize'' = Inr (Some (OptTuple (Some Quantize) ''--quantize'' None None))"
  "parse_optional ''--optimize-for-mobile''
     = Inr (Some (OptTuple (Some OptimizeForMobile) ''--optimize-for-mobile'' None None))"
  by (simp_all add: parse_optional_def option_string_actions_def)

lemma classify_render_option:
  "plain_option opt \<Longrightarrow> classify rest = Inr ts \<Longrightarrow>
     classify (render_option opt @ rest) = Inr (option_toks opt @ ts)"
  by (cases opt) (simp_all add: parse_optional_exact plain_value_def)

lemma classify_render:
  "list_all plain_option opts \<Longrightarrow> classify (render opts) = Inr (concat (map option_toks opts))"
  unfolding render_def
  by (induction opts) (simp_all add: classify_render_option)

lemma consume_render_option:
  "consume (zip (render_option opt @ rest) (option_toks opt @ ts)) st
     = consume (zip rest ts)
         (st\<lparr>ns := apply_option opt (ns st), seen_actions := option_action opt # seen_actions st\<rparr>)"
  by (cases opt) (simp_all add: take_action_def get_values_def)

lemma length_option_toks: "length (option_toks opt) = length (render_option opt)"
  by (cases opt) simp_all

lemma consume_render:
  "consume (zip (render opts) (concat (map option_toks opts))) st
     = Inr (st\<lparr>ns := fold apply_option opts (ns st),
                seen_actions := rev (map option_action opts) @ seen_actions st\<rparr>)"
  unfolding render_def
proof (induction opts arbitrary: st)
  case Nil
  then show ?case by simp
next
  case (Cons opt opts)
  have "zip (concat (map render_option (opt # opts))) (concat (map option_toks (opt # opts)))
          = zip (render_option opt @ concat (map render_option opts))
                (option_toks opt @ concat (map option_toks opts))"
    by simp
  then show ?case
    by (simp only: consume_render_option Cons.IH) simp
qed

lemma parse_canonical:
  assumes "list_all plain_option opts"
  shows "parse_args (render opts) =
    (if ModelFile \<in> set (map option_action opts)
     then Inr (fold apply_option opts default_namespace)
     else Inl (UsageError (RequiredArguments [ModelFile])))"
  by (simp add: parse_args_def classify_render[OF assms] consume_render required_missing
        initial_state_def)

lemma fold_apply_output:
  "OutputPath \<notin> set (map option_action opts) \<Longrightarrow>
     output_path (fold apply_option opts n) = output_path n"
proof (induction opts arbitrary: n)
  case Nil
  then show ?case by simp
next
  case (Cons opt opts)
  then show ?case by (cases opt) simp_all
qed

subsection \<open>Events of the parts of the build procedure\<close>

lemma written_append: "written (a @ b) = written a @ written b"
  by (induction a rule: written.induct) simp_all

lemma written_info: "written (info lg msg) = []"
  by (simp add: info_def)

lemma quantize_block_written: "written (snd (quantize_block env lg args enc)) = []"
  by (simp add: quantize_block_def written_append written_info Let_def split: sum.splits)

lemma test_block_written: "written (snd (test_block env lg args enc dec)) = []"
  by (simp add: test_block_def written_append written_info Let_def split: sum.splits prod.splits)

lemma prepare_written: "written (snd (prepare env args)) = []"
proof -
  have q: "\<And>lg enc r ev. quantize_block env lg args enc = (r, ev) \<Longrightarrow> written ev = []"
    using quantize_block_written by (metis snd_conv)
  have t: "\<And>lg enc dec r ev. test_block env lg args enc dec = (r, ev) \<Longrightarrow> written ev = []"
    using test_block_written by (metis snd_conv)
  show ?thesis
    by (auto simp add: prepare_def written_append written_info Let_def
        split: sum.splits prod.splits dest: q t)
qed

lemma save_block_no_output_path:
  assumes "output_path args = None"
  shows "\<exists>e. save_block env args enc dec = (Inl e, [])
           \<and> ((\<exists>sl. jit_script env LoaderModule = Inr sl) \<longrightarrow> e = TypeError)"
  using assms
  by (auto simp add: save_block_def save_scripted_def os_path_join_def split: sum.splits)


subsection \<open>Saving, self-test and preparation\<close>

lemma save_scripted_Inr:
  assumes "save_scripted env args s name = (Inr u, ev)" and "\<not> startswith name ''/''"
  shows "\<exists>out. output_path args = Some out \<and> save env s (directory_prefix out @ name) = None
           \<and> ev = [Write (directory_prefix out @ name) s]"
proof (cases "output_path args")
  case None
  with assms show ?thesis by (simp add: save_scripted_def os_path_join_def)
next
  case (Some out)
  have j: "os_path_join (Some out) name = Inr (directory_prefix out @ name)"
    using assms(2) by (simp add: os_path_join_def directory_prefix_def)
  show ?thesis
  proof (cases "save env s (directory_prefix out @ name)")
    case None
    with assms(1) Some j show ?thesis by (simp add: save_scripted_def)
  next
    case (Some e)
    with assms(1) \<open>output_path args = Some out\<close> j show ?thesis by (simp add: save_scripted_def)
  qed
qed


lemma names_not_absolute:
  "\<not> startswith ''loader.zip'' ''/''" "\<not> startswith ''decoder.zip'' ''/''"
  "\<not> startswith ''encoder.zip'' ''/''"
  by (simp_all add: startswith_def)

lemma save_block_Inr:
  assumes "save_block env args enc dec = (Inr u, evs)"
  shows "\<exists>out sl sd se se'.
     output_path args = Some out
     \<and> jit_script env LoaderModule = Inr sl
     \<and> jit_script env (DecoderModule dec) = Inr sd
     \<and> jit_script env (EncoderModule enc) = Inr se
     \<and> (if optimize_for_mobile args then mobile_optimizer env se = Inr se' else se' = se)
     \<and> evs = [Write (directory_prefix out @ ''loader.zip'') sl,
              Write (directory_prefix out @ ''decoder.zip'') sd,
              Write (directory_prefix out @ ''encoder.zip'') se']"
proof (cases "jit_script env LoaderModule")
  case (Inl e1)
  with assms show ?thesis by (simp add: save_block_def)
next
  case sl: (Inr sl)
  obtain r1 ev1 where s1: "save_scripted env args sl ''loader.zip'' = (r1, ev1)" by fastforce
  show ?thesis
  proof (cases r1)
    case (Inl e1)
    with assms sl s1 show ?thesis by (simp add: save_block_def)
  next
    case u1: (Inr u1)
    show ?thesis
    proof (cases "jit_script env (DecoderModule dec)")
      case (Inl e2)
      with assms sl s1 u1 show ?thesis by (simp add: save_block_def)
    next
      case sd: (Inr sd)
      obtain r2 ev2 where s2: "save_scripted env args sd ''decoder.zip'' = (r2, ev2)" by fastforce
      show ?thesis
      proof (cases r2)
        case (Inl e2)
        with assms sl s1 u1 sd s2 show ?thesis by (simp add: save_block_def)
      next
        case u2: (Inr u2)
        show ?thesis
        proof (cases "jit_script env (EncoderModule enc)")
          case (Inl e3)
          with assms sl s1 u1 sd s2 u2 show ?thesis by (simp add: save_block_def)
        next
          case se: (Inr se)
          let ?o = "if optimize_for_mobile args then mobile_optimizer env se else Inr se"
          show ?thesis
          proof (cases ?o)
            case (Inl e4)
            with assms sl s1 u1 sd s2 u2 se show ?thesis by (simp add: save_block_def)
          next
            case se': (Inr se')
            obtain r3 ev3 where s3: "save_scripted env args se' ''encoder.zip'' = (r3, ev3)"
              by fastforce
            from assms sl s1 u1 sd s2 u2 se se' s3
            have r3: "r3 = Inr u" and evs: "evs = ev1 @ ev2 @ ev3"
              by (simp_all add: save_block_def)
            from save_scripted_Inr[OF s1[unfolded u1] names_not_absolute(1)]
            obtain out where out: "output_path args = Some out"
              and ev1: "ev1 = [Write (directory_prefix out @ ''loader.zip'') sl]" by blast
            from save_scripted_Inr[OF s2[unfolded u2] names_not_absolute(2)] out
            have ev2: "ev2 = [Write (directory_prefix out @ ''decoder.zip'') sd]" by auto
            from save_scripted_Inr[OF s3[unfolded r3] names_not_absolute(3)] out
            have ev3: "ev3 = [Write (directory_prefix out @ ''encoder.zip'') se']" by auto
            have "if optimize_for_mobile args then mobile_optimizer env se = Inr se' else se' = se"
              using se' by (simp split: if_splits)
            with out sl sd se evs ev1 ev2 ev3 show ?thesis by simp
          qed
        qed
      qed
    qed
  qed
qed


lemma info_init_logging: "info (init_logging d) msg = [Log msg]"
  by (simp add: info_def init_logging_def)

lemma test_block_Inr:
  assumes "test_block env (init_logging d) args enc dec = (Inr dec', ev)"
    and "test_file args = Some f" and "f \<noteq> []"
  shows "\<exists>waveform emission transcript.
           Loader_forward (audio_files env) (interp env) f = Inr waveform
         \<and> Encoder_forward (model_forward env) enc waveform = Inr emission
         \<and> Decoder_forward (decode env) dec emission = (Inr transcript, dec')
         \<and> ev = [Log (''Testing with '' @ f), Log transcript]"
proof -
  have t: "truthy (test_file args)" using assms(2,3) by (simp add: truthy_def)
  show ?thesis
  proof (cases "Loader_forward (audio_files env) (interp env) f")
    case (Inl e)
    with assms t show ?thesis by (simp add: test_block_def)
  next
    case w: (Inr waveform)
    show ?thesis
    proof (cases "Encoder_forward (model_forward env) enc waveform")
      case (Inl e)
      with assms t w show ?thesis by (simp add: test_block_def)
    next
      case em: (Inr emission)
      obtain r d where dd: "Decoder_forward (decode env) dec emission = (r, d)" by fastforce
      show ?thesis
      proof (cases r)
        case (Inl e)
        with assms t w em dd show ?thesis by (simp add: test_block_def)
      next
        case (Inr transcript)
        with assms t w em dd show ?thesis
          by (simp add: test_block_def info_init_logging)
      qed
    qed
  qed
qed

lemma prepare_Inr:
  assumes "prepare env args = (Inr (enc, dec'), logs)"
  shows "\<exists>ev01 ev2. logs = ev01 @ ev2 \<and> written ev01 = []
          \<and> test_block env (init_logging (debug args)) args enc
               (get_decoder (BeamSearchDecoder env)) = (Inr dec', ev2)"
proof (cases "get_model env (model_file args) (dict_dir args)")
  case (Inl e)
  with assms show ?thesis by (simp add: prepare_def)
next
  case m: (Inr imported)
  let ?lg = "init_logging (debug args)"
  let ?enc0 = "Encoder (eval_mode env imported)"
  obtain rq ev1 where q: "quantize_block env ?lg args ?enc0 = (rq, ev1)" by fastforce
  have w1: "written ev1 = []" using quantize_block_written[of env ?lg args ?enc0] q by simp
  show ?thesis
  proof (cases rq)
    case (Inl e)
    with assms m q show ?thesis by (simp add: prepare_def Let_def)
  next
    case e1: (Inr enc1)
    obtain rt ev2 where t: "test_block env ?lg args enc1 (get_decoder (BeamSearchDecoder env)) = (rt, ev2)"
      by fastforce
    show ?thesis
    proof (cases rt)
      case (Inl e)
      with assms m q e1 t show ?thesis by (simp add: prepare_def Let_def)
    next
      case (Inr d)
      with assms m q e1 t have "enc = enc1" "dec' = d"
        and "logs = (info ?lg (module_str env ?enc0) @ ev1) @ ev2"
        by (simp_all add: prepare_def Let_def)
      with t Inr w1 show ?thesis
        by (auto simp add: written_append written_info)
    qed
  qed
qed

lemma build_Inr:
  assumes "build env args = (Inr u, evs)"
  shows "\<exists>enc dec logs ev3. prepare env args = (Inr (enc, dec), logs)
           \<and> save_block env args enc dec = (Inr u, ev3) \<and> evs = logs @ ev3"
proof -
  obtain r logs where p: "prepare env args = (r, logs)" by fastforce
  show ?thesis
  proof (cases r)
    case (Inl e)
    with assms p show ?thesis by (simp add: build_def)
  next
    case (Inr ed)
    obtain enc dec where ed: "ed = (enc, dec)" by (cases ed)
    obtain r3 ev3 where s: "save_block env args enc dec = (r3, ev3)" by fastforce
    with assms p Inr ed show ?thesis by (simp add: build_def)
  qed
qed


lemma prepare_written': "prepare env args = (r, logs) \<Longrightarrow> written logs = []"
  using prepare_written[of env args] by simp

lemma main_Inr:
  "main env argv = (Inr u, evs) \<Longrightarrow> \<exists>args. parse_args argv = Inr args \<and> build env args = (Inr u, evs)"
  by (cases "parse_args argv") (simp_all add: main_def)





subsection \<open>Errors in the steps of the build procedure\<close>






subsection \<open>The claims\<close>

text \<open>
  C1. For every path at which an audio file is decoded, \<open>Loader.forward\<close> returns a
  waveform at 16000 Hz: when the native rate of the file differs from 16000 the result
  is the decoded waveform resampled from the native rate to 16000, and when the native
  rate is 16000 the decoded waveform is returned unchanged.
\<close>

theorem loader_output_rate:
  assumes "torchaudio_load files path = Inr (w0, sr)"
  shows "\<exists>w. Loader_forward files interp_fn path = Inr w \<and> rate w = 16000 \<and>
          (sr = 16000 \<longrightarrow> w = w0) \<and>
          (sr \<noteq> 16000 \<longrightarrow> w = resample interp_fn w0 (of_int sr) 16000)"
  using assms
  by (auto simp add: Loader_forward_def torchaudio_load_def resample_def
      split: sum.splits prod.splits)

theorem loader_output_rate_witness:
  "torchaudio_load example_files ''hi8k.wav'' = Inr (\<lparr>samples = [11, 0, 10], rate = 8000\<rparr>, 8000)
   \<and> Loader_forward example_files example_interp ''hi8k.wav''
       = Inr \<lparr>samples = [11, 11, 0, 0, 10, 10], rate = 16000\<rparr>"
proof -
  have h: "torchaudio_load example_files ''hi8k.wav''
             = Inr (\<lparr>samples = [11, 0, 10], rate = 8000\<rparr>, 8000)"
    by (simp add: torchaudio_load_def example_files_def)
  from loader_output_rate[OF h, of example_interp]
  obtain w where "Loader_forward example_files example_interp ''hi8k.wav'' = Inr w"
    and "w = resample example_interp \<lparr>samples = [11, 0, 10], rate = 8000\<rparr> (of_int 8000) 16000"
    by auto
  then show ?thesis
    using h by (simp add: resample_def example_interp_def)
qed

text \<open>
  C2. Whenever \<open>Decoder.forward\<close> returns a transcript, the transcript does not contain
  the word-boundary symbol \<open>|\<close>: it is the labels of the best hypothesis (the first
  hypothesis of the first batch entry) joined into one string, in which every \<open>|\<close> has
  been replaced by one space.
\<close>

theorem decoder_transcript_has_no_word_boundary:
  assumes "fst (Decoder_forward decode_fn self emission) = Inr t"
  shows "CHR ''|'' \<notin> set t \<and>
    (\<exists>result d best hyps batch.
       decode_fn (decoder self) emission = (Inr result, d) \<and>
       label_sequences result = (best # hyps) # batch \<and>
       t = map (\<lambda>c. if c = CHR ''|'' then CHR '' '' else c) (concat best))"
  using assms
  by (auto simp add: Decoder_forward_def index0_def str_replace_char
      split: prod.splits sum.splits list.splits)

theorem decoder_transcript_has_no_word_boundary_witness:
  "fst (Decoder_forward example_decode (Decoder 0) [11, 11, 0, 10, 4, 4, 11, 0, 10]) = Inr ''HI HI''
   \<and> CHR ''|'' \<notin> set ''HI HI''"
proof -
  have h: "fst (Decoder_forward example_decode (Decoder 0) [11, 11, 0, 10, 4, 4, 11, 0, 10])
             = Inr ''HI HI''"
    by code_simp
  from decoder_transcript_has_no_word_boundary[OF h] show ?thesis
    using h by blast
qed

text \<open>
  C3. \<open>_get_decoder\<close> wraps a beam-search decoder constructed with the fixed
  configuration: 32 distinct labels (indices 0 to 31), the blank at index 0, the
  word-boundary symbol, the sentence markers, the 26 capital Latin letters and the
  apostrophe among the labels, beam width 100, top-40 pruning, cumulative-probability
  cutoff 0.8, one process, and the log-likelihood input convention switched on.
\<close>

theorem decoder_configuration:
  "get_decoder ctor = Decoder (ctor decoder_args)
   \<and> length (labels decoder_args) = 32
   \<and> distinct (labels decoder_args)
   \<and> blank_id decoder_args = 0
   \<and> labels decoder_args ! blank_id decoder_args = ''<s>''
   \<and> ''|'' \<in> set (labels decoder_args)
   \<and> ''<s>'' \<in> set (labels decoder_args)
   \<and> ''</s>'' \<in> set (labels decoder_args)
   \<and> set (map (\<lambda>c. [c]) ''ABCDEFGHIJKLMNOPQRSTUVWXYZ'') \<subseteq> set (labels decoder_args)
   \<and> [CHR 0x27] \<in> set (labels decoder_args)
   \<and> beam_size decoder_args = 100
   \<and> cutoff_top_n decoder_args = 40
   \<and> cutoff_prob decoder_args = 8 / 10
   \<and> num_processes decoder_args = 1
   \<and> is_nll decoder_args"
  by (simp add: get_decoder_def decoder_args_def decoder_labels_def)

text \<open>
  C4. Every successful run writes exactly three files, in this order: \<open>loader.zip\<close>,
  \<open>decoder.zip\<close> and \<open>encoder.zip\<close>, each in the directory given by \<open>output_path\<close>.
  The first is the scripted Loader, the second the scripted Decoder, and the third the
  scripted Encoder, to which the mobile optimisation is applied first when
  \<open>optimize_for_mobile\<close> is set, and only to it.
\<close>

theorem successful_run_writes_three_artifacts:
  assumes "main env argv = (Inr u, evs)"
  shows "\<exists>args enc dec out sl sd se se'.
     parse_args argv = Inr args \<and> output_path args = Some out
     \<and> jit_script env LoaderModule = Inr sl
     \<and> jit_script env (DecoderModule dec) = Inr sd
     \<and> jit_script env (EncoderModule enc) = Inr se
     \<and> (if optimize_for_mobile args then mobile_optimizer env se = Inr se' else se' = se)
     \<and> written evs = [(directory_prefix out @ ''loader.zip'', sl),
                      (directory_prefix out @ ''decoder.zip'', sd),
                      (directory_prefix out @ ''encoder.zip'', se')]"
proof -
  from main_Inr[OF assms] obtain args where a: "parse_args argv = Inr args"
    and b: "build env args = (Inr u, evs)" by blast
  from build_Inr[OF b] obtain enc dec logs ev3 where p: "prepare env args = (Inr (enc, dec), logs)"
    and s: "save_block env args enc dec = (Inr u, ev3)" and evs: "evs = logs @ ev3" by blast
  from save_block_Inr[OF s] obtain out sl sd se se' where
    "output_path args = Some out" "jit_script env LoaderModule = Inr sl"
    "jit_script env (DecoderModule dec) = Inr sd" "jit_script env (EncoderModule enc) = Inr se"
    "if optimize_for_mobile args then mobile_optimizer env se = Inr se' else se' = se"
    "ev3 = [Write (directory_prefix out @ ''loader.zip'') sl,
            Write (directory_prefix out @ ''decoder.zip'') sd,
            Write (directory_prefix out @ ''encoder.zip'') se']"
    by blast
  moreover have "written evs = written ev3"
    using evs prepare_written'[OF p] by (simp add: written_append)
  ultimately show ?thesis using a by (intro exI[of _ args] exI[of _ enc] exI[of _ dec] exI[of _ out]
        exI[of _ sl] exI[of _ sd] exI[of _ se] exI[of _ se']) simp
qed

theorem successful_run_writes_three_artifacts_witness:
  "main example_env
     [''--model-file'', ''wav2vec_small.pt'', ''--output-path'', ''out/'', ''--test-file'',
      ''hi8k.wav'', ''--quantize'', ''--optimize-for-mobile'', ''--debug'']
   = (Inr (),
      [Log ''Encoder(imported wav2vec2)'', Log ''Quantizing the model'',
       Log ''Encoder(quantized imported wav2vec2)'', Log ''Testing with hi8k.wav'', Log ''HI'',
       Write ''out/loader.zip'' ''scripted Loader'',
       Write ''out/decoder.zip'' ''scripted Decoder'',
       Write ''out/encoder.zip'' ''mobile scripted Encoder of quantized imported wav2vec2''])
   \<and> length (written
      [Log ''Encoder(imported wav2vec2)'', Log ''Quantizing the model'',
       Log ''Encoder(quantized imported wav2vec2)'', Log ''Testing with hi8k.wav'', Log ''HI'',
       Write ''out/loader.zip'' ''scripted Loader'',
       Write ''out/decoder.zip'' ''scripted Decoder'',
       Write ''out/encoder.zip'' ''mobile scripted Encoder of quantized imported wav2vec2'']) = 3"
proof -
  have h: "main example_env
     [''--model-file'', ''wav2vec_small.pt'', ''--output-path'', ''out/'', ''--test-file'',
      ''hi8k.wav'', ''--quantize'', ''--optimize-for-mobile'', ''--debug'']
   = (Inr (),
      [Log ''Encoder(imported wav2vec2)'', Log ''Quantizing the model'',
       Log ''Encoder(quantized imported wav2vec2)'', Log ''Testing with hi8k.wav'', Log ''HI'',
       Write ''out/loader.zip'' ''scripted Loader'',
       Write ''out/decoder.zip'' ''scripted Decoder'',
       Write ''out/encoder.zip'' ''mobile scripted Encoder of quantized imported wav2vec2''])"
    by code_simp
  from successful_run_writes_three_artifacts[OF h] obtain a b c where
    "written
      [Log ''Encoder(imported wav2vec2)'', Log ''Quantizing the model'',
       Log ''Encoder(quantized imported wav2vec2)'', Log ''Testing with hi8k.wav'', Log ''HI'',
       Write ''out/loader.zip'' ''scripted Loader'',
       Write ''out/decoder.zip'' ''scripted Decoder'',
       Write ''out/encoder.zip'' ''mobile scripted Encoder of quantized imported wav2vec2'']
     = [a, b, c]" by blast
  then have "length (written
      [Log ''Encoder(imported wav2vec2)'', Log ''Quantizing the model'',
       Log ''Encoder(quantized imported wav2vec2)'', Log ''Testing with hi8k.wav'', Log ''HI'',
       Write ''out/loader.zip'' ''scripted Loader'',
       Write ''out/decoder.zip'' ''scripted Decoder'',
       Write ''out/encoder.zip'' ''mobile scripted Encoder of quantized imported wav2vec2'']) = 3"
    by simp
  with h show ?thesis by blast
qed

text \<open>
  C5 (as amended). For every command line on which \<open>--model-file\<close> is not supplied,
  parsing does not return: the process ends inside \<open>_parse_args\<close>, before anything is
  logged, loaded or written. It ends with a usage error and exit status 2, unless the
  command line asks for help (\<open>-h\<close>, \<open>--help\<close>), in which case it may instead print the
  help text and exit with status 0.
\<close>

theorem parse_without_model_file:
  assumes "\<not> supplied ModelFile argv"
  shows "\<exists>e. parse_args argv = Inl e \<and> main env argv = (Inl e, [])
           \<and> (e = HelpExit \<or> (\<exists>u. e = UsageError u))
           \<and> (exit_status e = 2 \<or> (exit_status e = 0 \<and> supplied Help argv))"
proof (cases "classify argv")
  case (Inl e)
  with classify_error[OF Inl] show ?thesis
    by (auto simp add: parse_args_def main_def)
next
  case (Inr toks)
  have len: "length toks = length argv" by (rule classify_length[OF Inr])
  have reg: "list_all registered (map snd (zip argv toks))"
    using classify_registered[OF Inr] len by simp
  show ?thesis
  proof (cases "consume (zip argv toks) initial_state")
    case (Inl e)
    from consume_error[OF reg Inl] classify_named[OF Inr]
    have "(\<exists>u. e = UsageError u) \<or> (e = HelpExit \<and> supplied Help argv)" by blast
    with Inl Inr show ?thesis
      by (auto simp add: parse_args_def main_def)
  next
    case (Inr st)
    from consume_seen[OF Inr] have "set (seen_actions st) \<subseteq> set (named (zip argv toks))"
      by (simp add: initial_state_def)
    with classify_named[OF \<open>classify argv = Inr toks\<close>] assms
    have "ModelFile \<notin> set (seen_actions st)" by blast
    with Inr \<open>classify argv = Inr toks\<close> show ?thesis
      by (simp add: parse_args_def main_def required_missing)
  qed
qed

theorem parse_without_model_file_witness:
  "\<not> supplied ModelFile [''--output-path'', ''out'', ''--debug'']
   \<and> parse_args [''--output-path'', ''out'', ''--debug'']
       = Inl (UsageError (RequiredArguments [ModelFile]))
   \<and> main example_env [''--output-path'', ''out'', ''--debug'']
       = (Inl (UsageError (RequiredArguments [ModelFile])), [])"
proof -
  have h: "\<not> supplied ModelFile [''--output-path'', ''out'', ''--debug'']"
    by code_simp
  have p: "parse_args [''--output-path'', ''out'', ''--debug'']
       = Inl (UsageError (RequiredArguments [ModelFile]))"
    by code_simp
  from parse_without_model_file[OF h, of example_env] show ?thesis
    using h p by auto
qed

text \<open>The claim as stated fails on the command line \<^verbatim>\<open>--help\<close>: the option
  \<open>--model-file\<close> is absent, and the process exits with status 0.\<close>

theorem help_exits_with_status_zero:
  "\<not> supplied ModelFile [''--help'']
   \<and> parse_args [''--help''] = Inl HelpExit
   \<and> exit_status HelpExit = 0"
  by code_simp

text \<open>
  C7 (as amended). In every successful run in which \<open>test_file\<close> is given and is not the
  empty string, the Loader, the Encoder and the Decoder are run in turn on the test
  file, and the resulting transcript, which may be empty, is logged after the message
  \<open>Testing with\<close> and before the first of the three artifacts is written.
\<close>

theorem self_test_logged_before_artifacts:
  assumes "main env argv = (Inr u, evs)" and "parse_args argv = Inr args"
    and "test_file args = Some f" and "f \<noteq> []"
  shows "\<exists>enc dec' waveform emission transcript pre ws.
       Loader_forward (audio_files env) (interp env) f = Inr waveform
     \<and> Encoder_forward (model_forward env) enc waveform = Inr emission
     \<and> Decoder_forward (decode env) (get_decoder (BeamSearchDecoder env)) emission
         = (Inr transcript, dec')
     \<and> evs = pre @ [Log (''Testing with '' @ f), Log transcript] @ ws
     \<and> written pre = []
     \<and> ws = map (\<lambda>(p, s). Write p s) (written ws)
     \<and> length (written ws) = 3"
proof -
  from main_Inr[OF assms(1)] assms(2) have b: "build env args = (Inr u, evs)" by simp
  from build_Inr[OF b] obtain enc dec logs ev3 where p: "prepare env args = (Inr (enc, dec), logs)"
    and s: "save_block env args enc dec = (Inr u, ev3)" and evs: "evs = logs @ ev3" by blast
  from prepare_Inr[OF p] obtain ev01 ev2 where logs: "logs = ev01 @ ev2" and w: "written ev01 = []"
    and t: "test_block env (init_logging (debug args)) args enc
               (get_decoder (BeamSearchDecoder env)) = (Inr dec, ev2)" by blast
  from test_block_Inr[OF t assms(3,4)] obtain waveform emission transcript where
    l: "Loader_forward (audio_files env) (interp env) f = Inr waveform"
    and e: "Encoder_forward (model_forward env) enc waveform = Inr emission"
    and d: "Decoder_forward (decode env) (get_decoder (BeamSearchDecoder env)) emission
         = (Inr transcript, dec)"
    and ev2: "ev2 = [Log (''Testing with '' @ f), Log transcript]" by blast
  from save_block_Inr[OF s] obtain p1 s1 p2 s2 p3 s3 where
    ev3: "ev3 = [Write p1 s1, Write p2 s2, Write p3 s3]" by blast
  have "evs = ev01 @ [Log (''Testing with '' @ f), Log transcript] @ ev3"
    using evs logs ev2 by simp
  moreover have "ev3 = map (\<lambda>(p, s). Write p s) (written ev3)" "length (written ev3) = 3"
    using ev3 by simp_all
  ultimately show ?thesis using l e d w by blast
qed

theorem self_test_logged_before_artifacts_witness:
  "main example_env
     [''--model-file'', ''wav2vec_small.pt'', ''--output-path'', ''out'', ''--test-file'', ''hi.wav'']
   = (Inr (),
      [Log ''Encoder(imported wav2vec2)'', Log ''Testing with hi.wav'', Log ''HI HI'',
       Write ''out/loader.zip'' ''scripted Loader'',
       Write ''out/decoder.zip'' ''scripted Decoder'',
       Write ''out/encoder.zip'' ''scripted Encoder of imported wav2vec2''])
   \<and> (\<exists>pre transcript ws.
        [Log ''Encoder(imported wav2vec2)'', Log ''Testing with hi.wav'', Log ''HI HI'',
         Write ''out/loader.zip'' ''scripted Loader'',
         Write ''out/decoder.zip'' ''scripted Decoder'',
         Write ''out/encoder.zip'' ''scripted Encoder of imported wav2vec2'']
        = pre @ [Log ''Testing with hi.wav'', Log transcript] @ ws
        \<and> written pre = [] \<and> length (written ws) = 3)"
proof -
  let ?argv = "[''--model-file'', ''wav2vec_small.pt'', ''--output-path'', ''out'', ''--test-file'',
      ''hi.wav'']"
  let ?args = "\<lparr>model_file = Some ''wav2vec_small.pt'', dict_dir = None,
      output_path = Some ''out'', test_file = Some ''hi.wav'', debug = False, quantize = False,
      optimize_for_mobile = False\<rparr>"
  have h: "main example_env ?argv
   = (Inr (),
      [Log ''Encoder(imported wav2vec2)'', Log ''Testing with hi.wav'', Log ''HI HI'',
       Write ''out/loader.zip'' ''scripted Loader'',
       Write ''out/decoder.zip'' ''scripted Decoder'',
       Write ''out/encoder.zip'' ''scripted Encoder of imported wav2vec2''])"
    by code_simp
  have p: "parse_args ?argv = Inr ?args" by code_simp
  have t: "test_file ?args = Some ''hi.wav''" by simp
  have n: "''hi.wav'' \<noteq> []" by simp
  from self_test_logged_before_artifacts[OF h p t n] have
    "\<exists>pre transcript ws.
        [Log ''Encoder(imported wav2vec2)'', Log ''Testing with hi.wav'', Log ''HI HI'',
         Write ''out/loader.zip'' ''scripted Loader'',
         Write ''out/decoder.zip'' ''scripted Decoder'',
         Write ''out/encoder.zip'' ''scripted Encoder of imported wav2vec2'']
        = pre @ [Log (''Testing with '' @ ''hi.wav''), Log transcript] @ ws
        \<and> written pre = [] \<and> length (written ws) = 3"
    by blast
  then show ?thesis using h by simp
qed

text \<open>The claim as stated fails on a test file of silence: the run succeeds and the
  transcript that is logged is the empty string.\<close>

theorem self_test_may_log_empty_transcript:
  "main example_env
     [''--model-file'', ''wav2vec_small.pt'', ''--output-path'', ''out'', ''--test-file'',
      ''silence.wav'']
   = (Inr (),
      [Log ''Encoder(imported wav2vec2)'', Log ''Testing with silence.wav'', Log [],
       Write ''out/loader.zip'' ''scripted Loader'',
       Write ''out/decoder.zip'' ''scripted Decoder'',
       Write ''out/encoder.zip'' ''scripted Encoder of imported wav2vec2''])"
  by code_simp



text \<open>
  C9. The export list of the package index is exactly \<open>Wav2Letter\<close>, \<open>WaveRNN\<close>,
  \<open>ConvTasNet\<close>; each of the three names is bound by an import of the module; the
  submodule \<open>wav2vec2\<close> is imported (bound) as well, but is not in the export list.
\<close>

theorem models_index_exports:
  "models_all = [''Wav2Letter'', ''WaveRNN'', ''ConvTasNet'']
   \<and> set models_all \<subseteq> set (bound_names models_imports)
   \<and> distinct models_all
   \<and> ''wav2vec2'' \<in> set (bound_names models_imports)
   \<and> ''wav2vec2'' \<notin> set models_all
   \<and> set (bound_names models_imports) - set models_all = {''wav2vec2''}"
  by (auto simp add: models_all_def models_imports_def bound_names_def)

text \<open>
  C10 (as amended). \<open>--output-path\<close> is not required. A command line in canonical form
  that supplies \<open>--model-file\<close> and omits \<open>--output-path\<close> is parsed successfully, with
  \<open>output_path\<close> unset; and whenever a command line on which \<open>--output-path\<close> is not
  supplied is accepted, \<open>output_path\<close> is unset. A run with \<open>output_path\<close> unset never
  succeeds and writes no artifact; when model loading, the optional blocks and the
  scripting of the Loader raise no error, it ends with \<open>TypeError\<close> at the first path
  join, after the events of those steps. Nothing checks the output directory earlier.
\<close>

theorem run_without_output_path:
  "(list_all plain_option opts \<and> ModelFile \<in> set (map option_action opts)
      \<and> OutputPath \<notin> set (map option_action opts)
     \<longrightarrow> (\<exists>args. parse_args (render opts) = Inr args \<and> output_path args = None))
   \<and> (parse_args argv = Inr args \<and> \<not> supplied OutputPath argv \<longrightarrow> output_path args = None)
   \<and> (parse_args argv = Inr args \<and> output_path args = None
     \<longrightarrow> (\<exists>e evs. main env argv = (Inl e, evs) \<and> written evs = []
           \<and> (\<forall>enc dec logs sl.
                 prepare env args = (Inr (enc, dec), logs) \<and> jit_script env LoaderModule = Inr sl
                 \<longrightarrow> e = TypeError \<and> evs = logs)))"
proof (intro conjI impI)
  assume a: "list_all plain_option opts \<and> ModelFile \<in> set (map option_action opts)
      \<and> OutputPath \<notin> set (map option_action opts)"
  let ?args = "fold apply_option opts default_namespace"
  have "parse_args (render opts) = Inr ?args"
    using parse_canonical[of opts] a by simp
  moreover have "output_path ?args = None"
    using fold_apply_output[of opts default_namespace] a by (simp add: default_namespace_def)
  ultimately show "\<exists>args. parse_args (render opts) = Inr args \<and> output_path args = None"
    by blast
next
  assume "parse_args argv = Inr args \<and> \<not> supplied OutputPath argv"
  then show "output_path args = None"
    using accepted_without_output_path[of argv args] by blast
next
  assume a: "parse_args argv = Inr args \<and> output_path args = None"
  then have m: "main env argv = build env args" by (simp add: main_def)
  from a have o: "output_path args = None" by blast
  obtain r logs where pr: "prepare env args = (r, logs)" by fastforce
  show "\<exists>e evs. main env argv = (Inl e, evs) \<and> written evs = []
           \<and> (\<forall>enc dec logs sl.
                 prepare env args = (Inr (enc, dec), logs) \<and> jit_script env LoaderModule = Inr sl
                 \<longrightarrow> e = TypeError \<and> evs = logs)"
  proof (cases r)
    case (Inl e)
    with pr have "build env args = (Inl e, logs)" by (simp add: build_def)
    with m pr Inl prepare_written'[OF pr] show ?thesis by auto
  next
    case (Inr ed)
    obtain enc dec where ed: "ed = (enc, dec)" by (cases ed)
    from save_block_no_output_path[OF o, of env enc dec] obtain e where
      s: "save_block env args enc dec = (Inl e, [])"
      and t: "(\<exists>sl. jit_script env LoaderModule = Inr sl) \<longrightarrow> e = TypeError" by blast
    from pr Inr ed s have b: "build env args = (Inl e, logs)" by (simp add: build_def)
    show ?thesis
      using m b pr Inr ed t prepare_written'[OF pr] by auto
  qed
qed

theorem run_without_output_path_witness:
  "list_all plain_option [OptModelFile ''wav2vec_small.pt'', OptTestFile ''hi8k.wav'']
   \<and> ModelFile \<in> set (map option_action [OptModelFile ''wav2vec_small.pt'', OptTestFile ''hi8k.wav''])
   \<and> OutputPath \<notin> set (map option_action [OptModelFile ''wav2vec_small.pt'', OptTestFile ''hi8k.wav''])
   \<and> (\<exists>args. parse_args (render [OptModelFile ''wav2vec_small.pt'', OptTestFile ''hi8k.wav'']) = Inr args
         \<and> output_path args = None)
   \<and> parse_args [''--model-file=wav2vec_small.pt'', ''--test'', ''hi8k.wav'']
        = Inr \<lparr>model_file = Some ''wav2vec_small.pt'', dict_dir = None, output_path = None,
               test_file = Some ''hi8k.wav'', debug = False, quantize = False,
               optimize_for_mobile = False\<rparr>
   \<and> \<not> supplied OutputPath [''--model-file=wav2vec_small.pt'', ''--test'', ''hi8k.wav'']
   \<and> prepare example_env
        \<lparr>model_file = Some ''wav2vec_small.pt'', dict_dir = None, output_path = None,
         test_file = Some ''hi8k.wav'', debug = False, quantize = False,
         optimize_for_mobile = False\<rparr>
        = (Inr (Encoder ''imported wav2vec2'', Decoder 1),
           [Log ''Encoder(imported wav2vec2)'', Log ''Testing with hi8k.wav'', Log ''HI''])
   \<and> jit_script example_env LoaderModule = Inr ''scripted Loader''
   \<and> main example_env [''--model-file=wav2vec_small.pt'', ''--test'', ''hi8k.wav'']
       = (Inl TypeError,
          [Log ''Encoder(imported wav2vec2)'', Log ''Testing with hi8k.wav'', Log ''HI''])"
proof -
  let ?opts = "[OptModelFile ''wav2vec_small.pt'', OptTestFile ''hi8k.wav'']"
  let ?argv = "[''--model-file=wav2vec_small.pt'', ''--test'', ''hi8k.wav'']"
  let ?args = "\<lparr>model_file = Some ''wav2vec_small.pt'', dict_dir = None, output_path = None,
         test_file = Some ''hi8k.wav'', debug = False, quantize = False,
         optimize_for_mobile = False\<rparr>"
  let ?logs = "[Log ''Encoder(imported wav2vec2)'', Log ''Testing with hi8k.wav'', Log ''HI'']"
  have a: "list_all plain_option ?opts" by code_simp
  have b: "ModelFile \<in> set (map option_action ?opts)" by simp
  have c: "OutputPath \<notin> set (map option_action ?opts)" by simp
  have p: "parse_args ?argv = Inr ?args" by code_simp
  have n: "\<not> supplied OutputPath ?argv" by code_simp
  have pr: "prepare example_env ?args = (Inr (Encoder ''imported wav2vec2'', Decoder 1), ?logs)"
    by code_simp
  have j: "jit_script example_env LoaderModule = Inr ''scripted Loader''"
    by (simp add: example_env_def)
  note T = run_without_output_path[of ?opts ?argv ?args example_env]
  from T a b c
  have 1: "\<exists>args. parse_args (render ?opts) = Inr args \<and> output_path args = None" by blast
  from T p n have o: "output_path ?args = None" by blast
  from T p o obtain e evs where m: "main example_env ?argv = (Inl e, evs)"
    and t: "\<forall>enc dec logs sl.
                 prepare example_env ?args = (Inr (enc, dec), logs)
                   \<and> jit_script example_env LoaderModule = Inr sl
                 \<longrightarrow> e = TypeError \<and> evs = logs" by blast
  from t pr j have "e = TypeError \<and> evs = ?logs" by blast
  with m have 2: "main example_env ?argv = (Inl TypeError, ?logs)" by simp
  from a b c 1 p n pr j 2 show ?thesis by blast
qed

text \<open>The claim as stated fails on a command line that also asks for help (parsing
  exits with status 0), and on one whose checkpoint cannot be loaded (the run fails in
  model loading, not in artifact writing).\<close>

theorem help_or_failed_loading_without_output_path:
  "supplied ModelFile [''--model-file'', ''m.pt'', ''--help'']
   \<and> \<not> supplied OutputPath [''--model-file'', ''m.pt'', ''--help'']
   \<and> parse_args [''--model-file'', ''m.pt'', ''--help''] = Inl HelpExit
   \<and> supplied ModelFile [''--model-file'', ''missing.pt'']
   \<and> \<not> supplied OutputPath [''--model-file'', ''missing.pt'']
   \<and> main example_env [''--model-file'', ''missing.pt'']
       = (Inl (ExternalError ''checkpoint not found''), [])"
  by code_simp

end
